theory Spec2Isabelle
  imports Main "HOL-Library.Word"
begin

section \<open>Shared vocabulary\<close>

text \<open>
  The components are React function components: a handful of \<open>useState\<close> cells, effects
  keyed on a dependency array, and promise continuations.  Each component becomes a record
  of its state cells; every event the browser can deliver (a user action, a timer that
  falls due, a settled promise) becomes a function from state to state, executed
  atomically as JavaScript's single-threaded event loop does.

  A promise returned by \<open>fetch\<close>/\<open>axios.get\<close> settles exactly once, either resolved
  with a payload or rejected with an error whose \<open>message\<close> is a string.
\<close>

datatype 'a outcome = Resolved 'a | Rejected string

text \<open>The four-valued status of the specification, read off the state cells of a component.\<close>

datatype RequestStatus = Idle | Loading | Success | Error

section \<open>Gallery pager (16\_Gallery\_project/src/App.jsx)\<close>

text \<open>
  State cells \<open>userData\<close>, \<open>index\<close>, \<open>loading\<close>.  Two bookkeeping fields record what
  the component did to the network: \<open>gal_issued\<close> lists the page number of every
  \<open>axios.get\<close> made so far, oldest first (the request's token is its position, from 1),
  and \<open>gal_answered\<close> lists the tokens whose promise has settled.  JavaScript numbers
  are exact integers up to \<open>2^53\<close>; the page index is modelled as an unbounded integer.
\<close>

record 'img gallery =
  gal_userData :: "'img list"
  gal_index :: int
  gal_loading :: bool
  gal_issued :: "int list"
  gal_answered :: "nat list"

text \<open>\<open>getData\<close> up to its \<open>await\<close>: show the spinner, request the current page.\<close>

definition getData_start :: "'img gallery \<Rightarrow> 'img gallery" where
  "getData_start s = s\<lparr>gal_loading := True, gal_issued := gal_issued s @ [gal_index s]\<rparr>"

text \<open>\<open>getData\<close> after its \<open>await\<close>: \<open>try\<close> stores the payload, \<open>catch\<close> only logs,
  \<open>finally\<close> hides the spinner.\<close>

definition getData_settle :: "'img list outcome \<Rightarrow> 'img gallery \<Rightarrow> 'img gallery" where
  "getData_settle r s =
     (case r of Resolved d \<Rightarrow> s\<lparr>gal_userData := d\<rparr> | Rejected m \<Rightarrow> s)\<lparr>gal_loading := False\<rparr>"

text \<open>Mounting: the initial cells, then the effect runs \<open>getData\<close> once.\<close>

definition gal_init :: "'img gallery" where
  "gal_init = \<lparr>gal_userData = [], gal_index = 1, gal_loading = False,
               gal_issued = [], gal_answered = []\<rparr>"

definition gal_mount :: "'img gallery" where
  "gal_mount = getData_start gal_init"

text \<open>
  The Previous button is disabled on page 1 or while loading; its handler decrements only
  if \<open>index > 1\<close>.  The Next button is disabled while loading.  A changed \<open>index\<close>
  re-creates \<open>getData\<close> (\<open>useCallback\<close> on \<open>[index]\<close>), so the effect runs it again.
\<close>

definition clickPrevious :: "'img gallery \<Rightarrow> 'img gallery" where
  "clickPrevious s =
     (if gal_index s = 1 \<or> gal_loading s then s
      else if gal_index s > 1 then getData_start (s\<lparr>gal_index := gal_index s - 1\<rparr>)
      else s)"

definition clickNext :: "'img gallery \<Rightarrow> 'img gallery" where
  "clickNext s =
     (if gal_loading s then s
      else getData_start (s\<lparr>gal_index := gal_index s + 1\<rparr>))"

text \<open>A response can only arrive for a request that was issued and has not settled yet.\<close>

definition gal_arrive :: "nat \<Rightarrow> 'img list outcome \<Rightarrow> 'img gallery \<Rightarrow> 'img gallery" where
  "gal_arrive t r s =
     (if 1 \<le> t \<and> t \<le> length (gal_issued s) \<and> t \<notin> set (gal_answered s)
      then getData_settle r (s\<lparr>gal_answered := t # gal_answered s\<rparr>)
      else s)"

datatype 'img gal_event = ClickPrevious | ClickNext | GalArrive nat "'img list outcome"

fun gal_step :: "'img gallery \<Rightarrow> 'img gal_event \<Rightarrow> 'img gallery" where
  "gal_step s ClickPrevious = clickPrevious s"
| "gal_step s ClickNext = clickNext s"
| "gal_step s (GalArrive t r) = gal_arrive t r s"

definition gal_run :: "'img gal_event list \<Rightarrow> 'img gallery" where
  "gal_run es = foldl gal_step gal_mount es"

section \<open>DynamicFetch (14\_Api\_calling/src/components/DynamicFetch.jsx)\<close>

text \<open>
  State cells \<open>userId\<close>, \<open>user\<close>, \<open>loading\<close>, \<open>error\<close>; \<open>null\<close> is \<open>None\<close>.
  \<open>df_issued\<close> lists the user id of every request made so far, oldest first (token =
  position, from 1); \<open>df_answered\<close> lists the tokens whose promise has settled.  The
  component itself keeps no token: the two fields only describe the network.
\<close>

record 'u dynfetch =
  df_userId :: int
  df_user :: "'u option"
  df_loading :: bool
  df_error :: "string option"
  df_issued :: "int list"
  df_answered :: "nat list"

text \<open>\<open>fetchUser\<close> up to its \<open>await\<close>: \<open>setLoading(true); setError(null)\<close>, then
  the request for the current \<open>userId\<close>.\<close>

definition fetchUser_start :: "'u dynfetch \<Rightarrow> 'u dynfetch" where
  "fetchUser_start s =
     s\<lparr>df_loading := True, df_error := None, df_issued := df_issued s @ [df_userId s]\<rparr>"

text \<open>\<open>fetchUser\<close> after its \<open>await\<close>: \<open>try\<close> does \<open>setUser(response.data)\<close>,
  \<open>catch\<close> does \<open>setError(err.message)\<close>, \<open>finally\<close> does \<open>setLoading(false)\<close>.\<close>

definition fetchUser_settle :: "'u outcome \<Rightarrow> 'u dynfetch \<Rightarrow> 'u dynfetch" where
  "fetchUser_settle r s =
     (case r of Resolved d \<Rightarrow> s\<lparr>df_user := Some d\<rparr>
              | Rejected m \<Rightarrow> s\<lparr>df_error := Some m\<rparr>)\<lparr>df_loading := False\<rparr>"

definition df_init :: "'u dynfetch" where
  "df_init = \<lparr>df_userId = 1, df_user = None, df_loading = False, df_error = None,
              df_issued = [], df_answered = []\<rparr>"

definition df_mount :: "'u dynfetch" where
  "df_mount = fetchUser_start df_init"

text \<open>
  \<open>setUserId(Number(e.target.value))\<close>: the effect depends on \<open>[userId]\<close>, so it runs
  again only when the id really changes.
\<close>

definition selectUser :: "int \<Rightarrow> 'u dynfetch \<Rightarrow> 'u dynfetch" where
  "selectUser n s = (if n = df_userId s then s else fetchUser_start (s\<lparr>df_userId := n\<rparr>))"

definition df_arrive :: "nat \<Rightarrow> 'u outcome \<Rightarrow> 'u dynfetch \<Rightarrow> 'u dynfetch" where
  "df_arrive t r s =
     (if 1 \<le> t \<and> t \<le> length (df_issued s) \<and> t \<notin> set (df_answered s)
      then fetchUser_settle r (s\<lparr>df_answered := t # df_answered s\<rparr>)
      else s)"

datatype 'u df_event = SelectUser int | DfArrive nat "'u outcome"

fun df_step :: "'u dynfetch \<Rightarrow> 'u df_event \<Rightarrow> 'u dynfetch" where
  "df_step s (SelectUser n) = selectUser n s"
| "df_step s (DfArrive t r) = df_arrive t r s"

definition df_run :: "'u df_event list \<Rightarrow> 'u dynfetch" where
  "df_run es = foldl df_step df_mount es"

text \<open>
  The status as the render reads it: the loading banner while \<open>loading\<close>, else the error
  box when \<open>error\<close> is set, else the user card when \<open>user\<close> is set.
\<close>

definition df_status :: "'u dynfetch \<Rightarrow> RequestStatus" where
  "df_status s =
     (if df_loading s then Loading
      else if df_error s \<noteq> None then Error
      else if df_user s \<noteq> None then Success
      else Idle)"

fun is_key_change :: "'u df_event \<Rightarrow> bool" where
  "is_key_change (SelectUser n) = True"
| "is_key_change (DfArrive t r) = False"

section \<open>FetchOnMount (14\_Api\_calling/src/components/FetchOnMount.jsx)\<close>

record 'p fetchonmount =
  fom_posts :: "'p list"
  fom_loading :: bool
  fom_error :: "string option"

definition fom_init :: "'p fetchonmount" where
  "fom_init = \<lparr>fom_posts = [], fom_loading = True, fom_error = None\<rparr>"

text \<open>\<open>fetchPosts\<close> up to its \<open>await\<close> (\<open>setLoading(true)\<close>) and after it:
  \<open>setPosts(response.data.slice(0, 6))\<close>, or \<open>setError(err.message)\<close>; finally
  \<open>setLoading(false)\<close>.\<close>

definition fetchPosts_start :: "'p fetchonmount \<Rightarrow> 'p fetchonmount" where
  "fetchPosts_start s = s\<lparr>fom_loading := True\<rparr>"

definition fetchPosts_settle :: "'p list outcome \<Rightarrow> 'p fetchonmount \<Rightarrow> 'p fetchonmount" where
  "fetchPosts_settle r s =
     (case r of Resolved d \<Rightarrow> s\<lparr>fom_posts := take 6 d\<rparr>
              | Rejected m \<Rightarrow> s\<lparr>fom_error := Some m\<rparr>)\<lparr>fom_loading := False\<rparr>"

text \<open>The render returns the loading view, else the error view, else the posts.\<close>

definition fom_status :: "'p fetchonmount \<Rightarrow> RequestStatus" where
  "fom_status s =
     (if fom_loading s then Loading
      else if fom_error s \<noteq> None then Error
      else Success)"

section \<open>Strings\<close>

text \<open>
  A JavaScript string is a sequence of 16-bit code units.  \<open>str\<close> writes one down from
  its Basic Latin characters.

  \<open>trim\<close> strips white space and line terminators from both ends.  These are, by the
  language definition, tab, line feed, vertical tab, form feed, carriage return, space,
  no-break space, the byte order mark, the line and paragraph separators, and the other
  space separators of Unicode (U+1680, U+2000 to U+200A, U+202F, U+205F, U+3000); each
  is a single code unit.

  \<open>toLowerCase\<close> is the engine's case conversion over all of Unicode.  The repository
  does not define it and no part of it is fixed here: every definition that calls it
  takes it as the parameter \<open>toLowerCase\<close>, and what is proved holds for whatever
  function that is.  \<open>lowerLatin1\<close> is one instance, used to run examples: it agrees
  with the engine on strings whose letters are in Basic Latin and Latin-1.

  \<open>includes\<close> (here \<open>includes_str\<close>) looks for a contiguous occurrence.
\<close>

type_synonym jsstring = "16 word list"

definition str :: "string \<Rightarrow> jsstring" where
  "str cs = map of_char cs"

definition isWhitespace :: "16 word \<Rightarrow> bool" where
  "isWhitespace c \<longleftrightarrow>
     c \<in> set [0x0009, 0x000A, 0x000B, 0x000C, 0x000D, 0x0020, 0x00A0, 0x1680,
              0x2028, 0x2029, 0x202F, 0x205F, 0x3000, 0xFEFF]
     \<or> (0x2000 \<le> c \<and> c \<le> 0x200A)"

definition trim :: "jsstring \<Rightarrow> jsstring" where
  "trim s = rev (dropWhile isWhitespace (rev (dropWhile isWhitespace s)))"

definition lowerUnit :: "16 word \<Rightarrow> 16 word" where
  "lowerUnit c =
     (if (0x41 \<le> c \<and> c \<le> 0x5A) \<or> (0xC0 \<le> c \<and> c \<le> 0xDE \<and> c \<noteq> 0xD7)
      then c + 0x20 else c)"

definition lowerLatin1 :: "jsstring \<Rightarrow> jsstring" where
  "lowerLatin1 s = map lowerUnit s"

fun startsWith :: "jsstring \<Rightarrow> jsstring \<Rightarrow> bool" where
  "startsWith s [] = True"
| "startsWith [] (q # qs) = False"
| "startsWith (c # cs) (q # qs) = (c = q \<and> startsWith cs qs)"

fun includes_str :: "jsstring \<Rightarrow> jsstring \<Rightarrow> bool" where
  "includes_str [] q = (q = [])"
| "includes_str (c # cs) q = (startsWith (c # cs) q \<or> includes_str cs q)"

section \<open>DebounceSearchExample (15\_UseEffect\_in\_react/src/examples/DebounceSearchExample.jsx)\<close>

text \<open>
  State cells \<open>searchTerm\<close>, \<open>debouncedTerm\<close>, \<open>results\<close>, \<open>isSearching\<close>,
  \<open>searchCount\<close>.  The environment the component talks to is kept beside them:
  \<^item> \<open>dse_now\<close>, the clock in milliseconds;
  \<^item> \<open>dse_timer\<close>, the pending \<open>setTimeout\<close>, if any: the time it falls due and the
    \<open>searchTerm\<close> its closure captured (React runs the cleanup of an effect before it
    runs the effect again, so the timer of the latest run is the only one pending);
  \<^item> \<open>dse_fired\<close>, one entry per run of the timer callback (the line it logs to the
    console): when it ran and the value it passed to \<open>setDebouncedTerm\<close>;
  \<^item> \<open>dse_issued\<close>, the term of every \<open>fetch\<close> made so far, oldest first (token =
    position, from 1), and \<open>dse_answered\<close>, the tokens whose promise has settled;
  \<^item> \<open>dse_mounted\<close>: once the component is unmounted its input element is gone, and
    React discards the state updates its promises still attempt.
\<close>

record 'u debsearch =
  dse_searchTerm :: jsstring
  dse_debouncedTerm :: jsstring
  dse_results :: "'u list"
  dse_isSearching :: bool
  dse_searchCount :: nat
  dse_now :: nat
  dse_timer :: "(nat \<times> jsstring) option"
  dse_fired :: "(nat \<times> jsstring) list"
  dse_issued :: "jsstring list"
  dse_answered :: "nat list"
  dse_mounted :: bool

definition delayMs :: nat where
  "delayMs = 500"

text \<open>First effect, keyed on \<open>[searchTerm]\<close>: start a 500 ms timer; its cleanup clears it.\<close>

definition debounce_effect :: "'u debsearch \<Rightarrow> 'u debsearch" where
  "debounce_effect s = s\<lparr>dse_timer := Some (dse_now s + delayMs, dse_searchTerm s)\<rparr>"

definition debounce_cleanup :: "'u debsearch \<Rightarrow> 'u debsearch" where
  "debounce_cleanup s = s\<lparr>dse_timer := None\<rparr>"

text \<open>Second effect, keyed on \<open>[debouncedTerm]\<close>: a blank term empties the results and
  returns; any other term raises the searching flag, counts the call and fetches.\<close>

definition search_effect :: "'u debsearch \<Rightarrow> 'u debsearch" where
  "search_effect s =
     (if trim (dse_debouncedTerm s) = [] then s\<lparr>dse_results := []\<rparr>
      else s\<lparr>dse_isSearching := True,
             dse_searchCount := dse_searchCount s + 1,
             dse_issued := dse_issued s @ [dse_debouncedTerm s]\<rparr>)"

definition dse_init :: "'u debsearch" where
  "dse_init = \<lparr>dse_searchTerm = [], dse_debouncedTerm = [], dse_results = [],
               dse_isSearching = False, dse_searchCount = 0, dse_now = 0, dse_timer = None,
               dse_fired = [], dse_issued = [], dse_answered = [], dse_mounted = True\<rparr>"

text \<open>Mounting runs both effects in source order.\<close>

definition dse_mount :: "'u debsearch" where
  "dse_mount = search_effect (debounce_effect dse_init)"

text \<open>
  \<open>setSearchTerm\<close> (the input's \<open>onChange\<close>).  Setting the value already held changes no
  dependency, so no cleanup and no effect run; a new value runs the cleanup of the previous
  effect and then the effect again.
\<close>

definition setSearchTerm :: "jsstring \<Rightarrow> 'u debsearch \<Rightarrow> 'u debsearch" where
  "setSearchTerm v s =
     (if v = dse_searchTerm s then s
      else debounce_effect (debounce_cleanup (s\<lparr>dse_searchTerm := v\<rparr>)))"

text \<open>The key of the fetch is \<open>debouncedTerm\<close>; a change of key re-runs the second effect.\<close>

definition onKeyChange :: "jsstring \<Rightarrow> 'u debsearch \<Rightarrow> 'u debsearch" where
  "onKeyChange k s = search_effect (s\<lparr>dse_debouncedTerm := k\<rparr>)"

definition setDebouncedTerm :: "jsstring \<Rightarrow> 'u debsearch \<Rightarrow> 'u debsearch" where
  "setDebouncedTerm v s =
     (if v = dse_debouncedTerm s then s else onKeyChange v s)"

text \<open>The timer callback: log, then \<open>setDebouncedTerm\<close> with the captured term.\<close>

definition timer_callback :: "jsstring \<Rightarrow> 'u debsearch \<Rightarrow> 'u debsearch" where
  "timer_callback v s = setDebouncedTerm v (s\<lparr>dse_fired := dse_fired s @ [(dse_now s, v)]\<rparr>)"

text \<open>
  Letting \<open>d\<close> milliseconds pass: a pending timer that falls due within them runs at its
  due time, and is gone afterwards.
\<close>

definition dse_elapse :: "nat \<Rightarrow> 'u debsearch \<Rightarrow> 'u debsearch" where
  "dse_elapse d s =
     (case dse_timer s of
        None \<Rightarrow> s\<lparr>dse_now := dse_now s + d\<rparr>
      | Some (due, v) \<Rightarrow>
          if due \<le> dse_now s + d
          then (timer_callback v (s\<lparr>dse_now := max (dse_now s) due, dse_timer := None\<rparr>))
                 \<lparr>dse_now := dse_now s + d\<rparr>
          else s\<lparr>dse_now := dse_now s + d\<rparr>)"

text \<open>The promise chain of the fetch: \<open>then\<close> stores the payload and lowers the flag,
  \<open>catch\<close> logs and lowers the flag.\<close>

definition dse_settle :: "'u list outcome \<Rightarrow> 'u debsearch \<Rightarrow> 'u debsearch" where
  "dse_settle r s =
     (case r of Resolved d \<Rightarrow> s\<lparr>dse_results := d, dse_isSearching := False\<rparr>
              | Rejected m \<Rightarrow> s\<lparr>dse_isSearching := False\<rparr>)"

definition dse_arrive :: "nat \<Rightarrow> 'u list outcome \<Rightarrow> 'u debsearch \<Rightarrow> 'u debsearch" where
  "dse_arrive t r s =
     (if 1 \<le> t \<and> t \<le> length (dse_issued s) \<and> t \<notin> set (dse_answered s)
      then dse_settle r (s\<lparr>dse_answered := t # dse_answered s\<rparr>)
      else s)"

text \<open>Unmounting runs the cleanup of the first effect; the second effect has none.\<close>

definition dse_unmount :: "'u debsearch \<Rightarrow> 'u debsearch" where
  "dse_unmount s = (debounce_cleanup s)\<lparr>dse_mounted := False\<rparr>"

datatype 'u dse_event = Type jsstring | Elapse nat | DseArrive nat "'u list outcome" | Unmount

fun dse_step :: "'u debsearch \<Rightarrow> 'u dse_event \<Rightarrow> 'u debsearch" where
  "dse_step s (Type v) = (if dse_mounted s then setSearchTerm v s else s)"
| "dse_step s (Elapse d) = dse_elapse d s"
| "dse_step s (DseArrive t r) = (if dse_mounted s then dse_arrive t r s else s)"
| "dse_step s Unmount = dse_unmount s"

definition dse_run :: "'u dse_event list \<Rightarrow> 'u debsearch" where
  "dse_run es = foldl dse_step dse_mount es"



text \<open>The status read off the cells: Loading while \<open>isSearching\<close> is raised; otherwise
  Success when results are held and Idle when there are none.\<close>

definition dse_status :: "'u debsearch \<Rightarrow> RequestStatus" where
  "dse_status s =
     (if dse_isSearching s then Loading
      else if dse_results s \<noteq> [] then Success
      else Idle)"

section \<open>SearchWithDebounce (14\_Api\_calling/src/components/SearchWithDebounce.jsx)\<close>

text \<open>
  A user object has at least a \<open>name\<close> and an \<open>email\<close>, both strings, as the users of
  the queried service have; whatever else it carries is the extension of the record.  State cells \<open>searchTerm\<close>, \<open>results\<close>, \<open>loading\<close>; the clock,
  the pending timer, the log of timer callbacks, the issued queries and the settled tokens
  are as in the previous component, and \<open>swd_console\<close> collects the messages
  \<open>console.error\<close> printed.  The component has no state cell for an error.
\<close>

record user =
  name :: jsstring
  email :: jsstring

record 'x searchdeb =
  swd_searchTerm :: jsstring
  swd_results :: "'x user_scheme list"
  swd_loading :: bool
  swd_now :: nat
  swd_timer :: "(nat \<times> jsstring) option"
  swd_fired :: "(nat \<times> jsstring) list"
  swd_issued :: "jsstring list"
  swd_answered :: "nat list"
  swd_console :: "string list"
  swd_mounted :: bool

text \<open>The filter predicate of \<open>searchUsers\<close>.\<close>

definition matches :: "(jsstring \<Rightarrow> jsstring) \<Rightarrow> jsstring \<Rightarrow> 'x user_scheme \<Rightarrow> bool" where
  "matches toLowerCase query u \<longleftrightarrow>
     includes_str (toLowerCase (name u)) (toLowerCase query)
     \<or> includes_str (toLowerCase (email u)) (toLowerCase query)"

text \<open>\<open>searchUsers\<close> up to its \<open>await\<close>, and after it: \<open>try\<close> filters the payload and
  stores it, \<open>catch\<close> prints the error, \<open>finally\<close> lowers the flag.\<close>

definition searchUsers_start :: "jsstring \<Rightarrow> 'x searchdeb \<Rightarrow> 'x searchdeb" where
  "searchUsers_start query s = s\<lparr>swd_loading := True, swd_issued := swd_issued s @ [query]\<rparr>"

definition searchUsers_settle ::
    "(jsstring \<Rightarrow> jsstring) \<Rightarrow> jsstring \<Rightarrow> 'x user_scheme list outcome \<Rightarrow> 'x searchdeb \<Rightarrow> 'x searchdeb" where
  "searchUsers_settle toLowerCase query r s =
     (case r of Resolved d \<Rightarrow> s\<lparr>swd_results := filter (matches toLowerCase query) d\<rparr>
              | Rejected m \<Rightarrow> s\<lparr>swd_console := swd_console s @ [m]\<rparr>)\<lparr>swd_loading := False\<rparr>"

text \<open>The effect, keyed on \<open>[searchTerm]\<close>, its cleanup, and the timer callback
  \<open>delayDebounce\<close>: a non-blank term is searched, a blank one empties the results.\<close>

definition swd_effect :: "'x searchdeb \<Rightarrow> 'x searchdeb" where
  "swd_effect s = s\<lparr>swd_timer := Some (swd_now s + delayMs, swd_searchTerm s)\<rparr>"

definition swd_cleanup :: "'x searchdeb \<Rightarrow> 'x searchdeb" where
  "swd_cleanup s = s\<lparr>swd_timer := None\<rparr>"

definition delayDebounce :: "jsstring \<Rightarrow> 'x searchdeb \<Rightarrow> 'x searchdeb" where
  "delayDebounce v s =
     (if trim v \<noteq> [] then searchUsers_start v (s\<lparr>swd_fired := swd_fired s @ [(swd_now s, v)]\<rparr>)
      else s\<lparr>swd_fired := swd_fired s @ [(swd_now s, v)], swd_results := []\<rparr>)"

definition swd_init :: "'x searchdeb" where
  "swd_init = \<lparr>swd_searchTerm = [], swd_results = [], swd_loading = False, swd_now = 0,
               swd_timer = None, swd_fired = [], swd_issued = [], swd_answered = [],
               swd_console = [], swd_mounted = True\<rparr>"

definition swd_mount :: "'x searchdeb" where
  "swd_mount = swd_effect swd_init"

definition swd_setSearchTerm :: "jsstring \<Rightarrow> 'x searchdeb \<Rightarrow> 'x searchdeb" where
  "swd_setSearchTerm v s =
     (if v = swd_searchTerm s then s
      else swd_effect (swd_cleanup (s\<lparr>swd_searchTerm := v\<rparr>)))"

definition swd_elapse :: "nat \<Rightarrow> 'x searchdeb \<Rightarrow> 'x searchdeb" where
  "swd_elapse d s =
     (case swd_timer s of
        None \<Rightarrow> s\<lparr>swd_now := swd_now s + d\<rparr>
      | Some (due, v) \<Rightarrow>
          if due \<le> swd_now s + d
          then (delayDebounce v (s\<lparr>swd_now := max (swd_now s) due, swd_timer := None\<rparr>))
                 \<lparr>swd_now := swd_now s + d\<rparr>
          else s\<lparr>swd_now := swd_now s + d\<rparr>)"

text \<open>The continuation of request \<open>t\<close> filters with the query its own call was given.\<close>

definition swd_arrive ::
    "(jsstring \<Rightarrow> jsstring) \<Rightarrow> nat \<Rightarrow> 'x user_scheme list outcome \<Rightarrow> 'x searchdeb \<Rightarrow> 'x searchdeb" where
  "swd_arrive toLowerCase t r s =
     (if 1 \<le> t \<and> t \<le> length (swd_issued s) \<and> t \<notin> set (swd_answered s)
      then searchUsers_settle toLowerCase (swd_issued s ! (t - 1)) r
             (s\<lparr>swd_answered := t # swd_answered s\<rparr>)
      else s)"

definition swd_unmount :: "'x searchdeb \<Rightarrow> 'x searchdeb" where
  "swd_unmount s = (swd_cleanup s)\<lparr>swd_mounted := False\<rparr>"

datatype 'x swd_event =
  SwdType jsstring | SwdElapse nat | SwdArrive nat "'x user_scheme list outcome" | SwdUnmount

fun swd_step :: "(jsstring \<Rightarrow> jsstring) \<Rightarrow> 'x searchdeb \<Rightarrow> 'x swd_event \<Rightarrow> 'x searchdeb" where
  "swd_step toLowerCase s (SwdType v) = (if swd_mounted s then swd_setSearchTerm v s else s)"
| "swd_step toLowerCase s (SwdElapse d) = swd_elapse d s"
| "swd_step toLowerCase s (SwdArrive t r) =
     (if swd_mounted s then swd_arrive toLowerCase t r s else s)"
| "swd_step toLowerCase s SwdUnmount = swd_unmount s"

definition swd_run :: "(jsstring \<Rightarrow> jsstring) \<Rightarrow> 'x swd_event list \<Rightarrow> 'x searchdeb" where
  "swd_run toLowerCase es = foldl (swd_step toLowerCase) swd_mount es"

text \<open>The status read off the cells, as before; the component has no cell from which
  Error could be read.\<close>

definition swd_status :: "'x searchdeb \<Rightarrow> RequestStatus" where
  "swd_status s =
     (if swd_loading s then Loading
      else if swd_results s \<noteq> [] then Success
      else Idle)"


section \<open>Invariants and auxiliary predicates\<close>

text \<open>The pager's invariant: the index, and every page requested so far, is at least 1.\<close>

definition gal_inv :: "'img gallery \<Rightarrow> bool" where
  "gal_inv s \<longleftrightarrow> 1 \<le> gal_index s \<and> (\<forall>p \<in> set (gal_issued s). 1 \<le> p)"

text \<open>DynamicFetch's invariant: an error is held only in status Error.\<close>

definition df_inv :: "'u dynfetch \<Rightarrow> bool" where
  "df_inv s \<longleftrightarrow> (df_error s \<noteq> None \<longrightarrow> df_status s = Error)"


text \<open>A disposed component: unmounted, with no timer pending.\<close>

definition dse_disposed :: "'u debsearch \<Rightarrow> bool" where
  "dse_disposed s \<longleftrightarrow> \<not> dse_mounted s \<and> dse_timer s = None"

definition swd_disposed :: "'x searchdeb \<Rightarrow> bool" where
  "swd_disposed s \<longleftrightarrow> \<not> swd_mounted s \<and> swd_timer s = None"



section \<open>Gallery pager: the page index never drops below 1\<close>

lemma gal_inv_mount: "gal_inv gal_mount"
  by (simp add: gal_inv_def gal_mount_def gal_init_def getData_start_def)

lemma gal_inv_step: "gal_inv s \<Longrightarrow> gal_inv (gal_step s e)"
  by (cases e)
     (auto simp: gal_inv_def clickPrevious_def clickNext_def gal_arrive_def
                 getData_start_def getData_settle_def split: outcome.splits)

lemma gal_inv_foldl: "gal_inv s \<Longrightarrow> gal_inv (foldl gal_step s es)"
  by (induction es arbitrary: s) (simp_all add: gal_inv_step)

text \<open>
  C9.  The page index is 1 at mount and at least 1 after every sequence of events; Next
  (when its button is enabled) adds one; Previous subtracts one only when the index is
  strictly greater than 1 (and its button is enabled) and otherwise leaves it alone; every
  page number requested from the network is at least 1.
\<close>

theorem C9_page_index_at_least_one:
  "gal_index (gal_mount :: 'img gallery) = 1
   \<and> 1 \<le> gal_index (gal_run (es :: 'img gal_event list))
   \<and> (\<forall>p \<in> set (gal_issued (gal_run es)). 1 \<le> p)
   \<and> gal_index (clickNext (s :: 'img gallery))
       = (if gal_loading s then gal_index s else gal_index s + 1)
   \<and> gal_index (clickPrevious s)
       = (if 1 < gal_index s \<and> \<not> gal_loading s then gal_index s - 1 else gal_index s)"
proof -
  have inv: "gal_inv (gal_run es)"
    unfolding gal_run_def by (rule gal_inv_foldl [OF gal_inv_mount])
  have start: "gal_index (gal_mount :: 'img gallery) = 1"
    by (simp add: gal_mount_def gal_init_def getData_start_def)
  have nxt: "gal_index (clickNext s) = (if gal_loading s then gal_index s else gal_index s + 1)"
    by (simp add: clickNext_def getData_start_def)
  have prv: "gal_index (clickPrevious s)
       = (if 1 < gal_index s \<and> \<not> gal_loading s then gal_index s - 1 else gal_index s)"
    by (auto simp: clickPrevious_def getData_start_def)
  from inv start nxt prv show ?thesis
    by (simp add: gal_inv_def)
qed

theorem C9_witness:
  "gal_index (gal_run [GalArrive 1 (Resolved [()]), ClickNext, GalArrive 2 (Rejected ''timeout''),
                       ClickPrevious, GalArrive 3 (Resolved []), ClickPrevious]) = 1
   \<and> gal_issued (gal_run [GalArrive 1 (Resolved [()]), ClickNext, GalArrive 2 (Rejected ''timeout''),
                       ClickPrevious, GalArrive 3 (Resolved []), ClickPrevious]) = [1, 2, 1]
   \<and> gal_index (clickPrevious (gal_arrive 1 (Resolved [()]) gal_mount)) = 1"
  using C9_page_index_at_least_one
          [of "[GalArrive 1 (Resolved [()]), ClickNext, GalArrive 2 (Rejected ''timeout''),
                ClickPrevious, GalArrive 3 (Resolved []), ClickPrevious]"
              "gal_arrive 1 (Resolved [()]) gal_mount"]
  by (simp add: gal_run_def gal_mount_def gal_init_def getData_start_def getData_settle_def
                clickPrevious_def clickNext_def gal_arrive_def)

section \<open>DynamicFetch: what the state cells guarantee\<close>

lemma df_inv_mount: "df_inv df_mount"
  by (simp add: df_inv_def df_mount_def df_init_def fetchUser_start_def)

lemma df_inv_step: "df_inv s \<Longrightarrow> df_inv (df_step s e)"
  by (cases e)
     (auto simp: df_inv_def df_status_def selectUser_def df_arrive_def
                 fetchUser_start_def fetchUser_settle_def split: outcome.splits if_splits)

lemma df_inv_foldl: "df_inv s \<Longrightarrow> df_inv (foldl df_step s es)"
  by (induction es arbitrary: s) (simp_all add: df_inv_step)

lemma df_user_selectUser: "df_user (selectUser n s) = df_user s"
  by (simp add: selectUser_def fetchUser_start_def)

lemma df_user_arrive_Rejected: "df_user (df_arrive t (Rejected m) s) = df_user s"
  by (simp add: df_arrive_def fetchUser_settle_def)

text \<open>
  C3, as the code has it.  In every state reachable from mount, \<open>error\<close> is non-null only
  when the status is Error, and every operation preserves that.  \<open>data\<close> (\<open>user\<close>) is
  not tied to Success: a key change and an error response leave it exactly as it was, so
  a user loaded earlier stays in the cell while the status is Loading or Error.
\<close>

theorem C3_error_only_when_Error:
  "(df_error (df_run (es :: 'u df_event list)) \<noteq> None \<longrightarrow> df_status (df_run es) = Error)
   \<and> ((df_error (s :: 'u dynfetch) \<noteq> None \<longrightarrow> df_status s = Error) \<longrightarrow>
       (df_error (df_step s e) \<noteq> None \<longrightarrow> df_status (df_step s e) = Error))
   \<and> df_user (selectUser n s) = df_user s
   \<and> df_user (df_arrive t (Rejected m) s) = df_user s"
proof -
  have "df_inv (df_run es)"
    unfolding df_run_def by (rule df_inv_foldl [OF df_inv_mount])
  moreover have "df_inv s \<longrightarrow> df_inv (df_step s e)"
    by (simp add: df_inv_step)
  ultimately show ?thesis
    by (simp add: df_inv_def df_user_selectUser df_user_arrive_Rejected)
qed

text \<open>Requests 1 and 2 are in flight; request 1 fails, then request 2 succeeds: the
  error stays in its cell and the status stays Error.\<close>

theorem C3_witness:
  "df_error (df_run [SelectUser 2, DfArrive 1 (Rejected ''Network Error'')] :: unit dynfetch) \<noteq> None
   \<and> df_status (df_run [SelectUser 2, DfArrive 1 (Rejected ''Network Error'')] :: unit dynfetch) = Error
   \<and> df_error (df_step (df_run [SelectUser 2, DfArrive 1 (Rejected ''Network Error'')] :: unit dynfetch)
                        (DfArrive 2 (Resolved ()))) \<noteq> None
   \<and> df_status (df_step (df_run [SelectUser 2, DfArrive 1 (Rejected ''Network Error'')] :: unit dynfetch)
                         (DfArrive 2 (Resolved ()))) = Error"
  using C3_error_only_when_Error
          [of "[SelectUser 2, DfArrive 1 (Rejected ''Network Error'')]"
              "df_run [SelectUser 2, DfArrive 1 (Rejected ''Network Error'')] :: unit dynfetch"
              "DfArrive 2 (Resolved ())"]
  by (simp add: df_run_def df_mount_def df_init_def fetchUser_start_def fetchUser_settle_def
                df_arrive_def selectUser_def)

text \<open>
  C3 as stated fails: after user 1 has loaded, selecting user 2 puts the component in
  Loading with the old user still in \<open>user\<close>; if that second request then fails, the
  status is Error and \<open>user\<close> is still non-null.
\<close>

theorem C3_counterexample:
  "df_user (df_run [DfArrive 1 (Resolved ''Leanne''), SelectUser 2]) = Some ''Leanne''
   \<and> df_status (df_run [DfArrive 1 (Resolved ''Leanne''), SelectUser 2]) = Loading
   \<and> df_user (df_run [DfArrive 1 (Resolved ''Leanne''), SelectUser 2,
                      DfArrive 2 (Rejected ''Network Error'')]) = Some ''Leanne''
   \<and> df_status (df_run [DfArrive 1 (Resolved ''Leanne''), SelectUser 2,
                        DfArrive 2 (Rejected ''Network Error'')]) = Error"
  by (simp add: df_run_def df_mount_def df_init_def fetchUser_start_def fetchUser_settle_def
                df_arrive_def selectUser_def df_status_def)

text \<open>
  C6.  Applying an error response sets the status to Error and \<open>error\<close> to the message,
  and leaves the data cell (\<open>user\<close>, \<open>posts\<close>) exactly as it was, in DynamicFetch and in
  FetchOnMount alike.
\<close>

theorem C6_error_leaves_data:
  "df_status (fetchUser_settle (Rejected m) s) = Error
   \<and> df_error (fetchUser_settle (Rejected m) s) = Some m
   \<and> df_user (fetchUser_settle (Rejected m) s) = df_user s
   \<and> fom_status (fetchPosts_settle (Rejected m) p) = Error
   \<and> fom_error (fetchPosts_settle (Rejected m) p) = Some m
   \<and> fom_posts (fetchPosts_settle (Rejected m) p) = fom_posts p"
  by (simp add: fetchUser_settle_def df_status_def fetchPosts_settle_def fom_status_def)

text \<open>User 1 is on display, user 2 is requested and the request fails: the status is
  Error and user 1 is still in the cell.\<close>

theorem C6_witness:
  "df_user (df_arrive 1 (Resolved ''Leanne'') df_mount) = Some ''Leanne''
   \<and> df_status (fetchUser_settle (Rejected ''Network Error'')
        (selectUser 2 (df_arrive 1 (Resolved ''Leanne'') df_mount))) = Error
   \<and> df_user (fetchUser_settle (Rejected ''Network Error'')
        (selectUser 2 (df_arrive 1 (Resolved ''Leanne'') df_mount))) = Some ''Leanne''"
  using C6_error_leaves_data
          [of "''Network Error''" "selectUser 2 (df_arrive 1 (Resolved ''Leanne'') df_mount)"
              "fom_init :: unit fetchonmount"]
  by (simp add: df_mount_def df_init_def fetchUser_start_def fetchUser_settle_def
                df_arrive_def selectUser_def)

lemma df_issued_arrive: "df_issued (df_arrive t r s) = df_issued s"
  by (cases r) (simp_all add: df_arrive_def fetchUser_settle_def)

lemma df_issued_selectUser:
  "df_issued (selectUser n s) = (if n = df_userId s then df_issued s else df_issued s @ [n])"
  by (simp add: selectUser_def fetchUser_start_def)

lemma df_issued_no_key_change:
  "\<forall>e \<in> set es. \<not> is_key_change e \<Longrightarrow> df_issued (foldl df_step s es) = df_issued s"
proof (induction es arbitrary: s)
  case Nil
  show ?case by simp
next
  case (Cons e es)
  from Cons.prems obtain t r where e: "e = DfArrive t r"
    by (cases e) auto
  from Cons.prems have "\<forall>x \<in> set es. \<not> is_key_change x" by simp
  from Cons.IH [OF this] show ?case
    by (simp add: e df_issued_arrive)
qed

text \<open>
  C8.  After the request that mounting makes for the initial id, no response, and in
  particular no error response, issues a request.  A step issues a request only if it is
  a key change to a different user id, and then exactly one, for the new id.  Hence however many responses arrive, without a key change the list of
  issued requests stays what it was: nothing is retried.
\<close>

theorem C8_no_automatic_retry:
  "df_issued (df_arrive t (Rejected m) s) = df_issued s
   \<and> (df_issued (df_step s e) \<noteq> df_issued s \<longrightarrow>
        (\<exists>n. e = SelectUser n \<and> n \<noteq> df_userId s \<and> df_issued (df_step s e) = df_issued s @ [n]))
   \<and> ((\<forall>x \<in> set es. \<not> is_key_change x) \<longrightarrow> df_issued (foldl df_step s es) = df_issued s)"
proof -
  have "df_issued (df_step s e) \<noteq> df_issued s \<longrightarrow>
        (\<exists>n. e = SelectUser n \<and> n \<noteq> df_userId s \<and> df_issued (df_step s e) = df_issued s @ [n])"
    by (cases e) (simp_all add: df_issued_arrive df_issued_selectUser)
  then show ?thesis
    by (simp add: df_issued_arrive df_issued_no_key_change)
qed

theorem C8_witness:
  "df_issued (df_step (df_mount :: unit dynfetch) (SelectUser 2)) \<noteq> df_issued (df_mount :: unit dynfetch)
   \<and> df_issued (df_step (df_mount :: unit dynfetch) (SelectUser 2)) = [1, 2]
   \<and> \<not> is_key_change (DfArrive 1 (Rejected ''Network Error'') :: unit df_event)
   \<and> \<not> is_key_change (DfArrive 1 (Resolved ()) :: unit df_event)
   \<and> df_issued (foldl df_step (df_mount :: unit dynfetch)
        [DfArrive 1 (Rejected ''Network Error''), DfArrive 1 (Resolved ())]) = [1]"
  using C8_no_automatic_retry
          [of 1 "''Network Error''" "df_mount :: unit dynfetch" "SelectUser 2"
              "[DfArrive 1 (Rejected ''Network Error''), DfArrive 1 (Resolved ())]"]
  by (simp add: df_mount_def df_init_def fetchUser_start_def selectUser_def)

section \<open>DebounceSearchExample: the debounce timer\<close>
















lemmas dse_defs = dse_run_def dse_mount_def dse_init_def search_effect_def debounce_effect_def
  debounce_cleanup_def setSearchTerm_def dse_elapse_def timer_callback_def setDebouncedTerm_def
  onKeyChange_def trim_def isWhitespace_def delayMs_def dse_arrive_def dse_settle_def
  dse_unmount_def dse_status_def str_def


section \<open>Disposal\<close>

lemma dse_disposed_step:
  assumes "dse_disposed s"
  shows "dse_disposed (dse_step s e)"
    and "dse_fired (dse_step s e) = dse_fired s"
    and "dse_searchTerm (dse_step s e) = dse_searchTerm s"
    and "dse_debouncedTerm (dse_step s e) = dse_debouncedTerm s"
  using assms
  by (cases e; simp add: dse_disposed_def dse_elapse_def dse_unmount_def debounce_cleanup_def)+

lemma dse_disposed_foldl:
  "dse_disposed s \<Longrightarrow>
     dse_disposed (foldl dse_step s es)
     \<and> dse_fired (foldl dse_step s es) = dse_fired s
     \<and> dse_searchTerm (foldl dse_step s es) = dse_searchTerm s
     \<and> dse_debouncedTerm (foldl dse_step s es) = dse_debouncedTerm s"
  by (induction es arbitrary: s) (simp_all add: dse_disposed_step)

lemma swd_disposed_step:
  assumes "swd_disposed s"
  shows "swd_disposed (swd_step toLowerCase s e)"
    and "swd_fired (swd_step toLowerCase s e) = swd_fired s"
    and "swd_searchTerm (swd_step toLowerCase s e) = swd_searchTerm s"
    and "swd_issued (swd_step toLowerCase s e) = swd_issued s"
    and "swd_results (swd_step toLowerCase s e) = swd_results s"
  using assms
  by (cases e; simp add: swd_disposed_def swd_elapse_def swd_unmount_def swd_cleanup_def)+

lemma swd_disposed_foldl:
  "swd_disposed s \<Longrightarrow>
     swd_disposed (foldl (swd_step toLowerCase) s es)
     \<and> swd_fired (foldl (swd_step toLowerCase) s es) = swd_fired s
     \<and> swd_searchTerm (foldl (swd_step toLowerCase) s es) = swd_searchTerm s
     \<and> swd_issued (foldl (swd_step toLowerCase) s es) = swd_issued s
     \<and> swd_results (foldl (swd_step toLowerCase) s es) = swd_results s"
  by (induction es arbitrary: s) (simp_all add: swd_disposed_step)

lemma dse_unmount_disposed: "dse_disposed (dse_unmount s)"
  by (simp add: dse_disposed_def dse_unmount_def debounce_cleanup_def)

lemma swd_unmount_disposed: "swd_disposed (swd_unmount s)"
  by (simp add: swd_disposed_def swd_unmount_def swd_cleanup_def)

text \<open>
  C7.  Unmounting clears the pending timer.  Whatever happens afterwards (time passing,
  responses arriving, further events of any kind), the timer callback never runs again,
  no timer is pending, and the raw and the stable value stay what they were at disposal.
  In SearchWithDebounce, whose callback searches directly, likewise no callback runs, and
  so no request is issued and the results are not touched.
\<close>

theorem C7_no_callback_after_disposal:
  "dse_timer (dse_unmount s) = None
   \<and> dse_fired (foldl dse_step (dse_unmount s) es) = dse_fired s
   \<and> dse_timer (foldl dse_step (dse_unmount s) es) = None
   \<and> dse_searchTerm (foldl dse_step (dse_unmount s) es) = dse_searchTerm s
   \<and> dse_debouncedTerm (foldl dse_step (dse_unmount s) es) = dse_debouncedTerm s
   \<and> swd_timer (swd_unmount w) = None
   \<and> swd_fired (foldl (swd_step toLowerCase) (swd_unmount w) xs) = swd_fired w
   \<and> swd_timer (foldl (swd_step toLowerCase) (swd_unmount w) xs) = None
   \<and> swd_searchTerm (foldl (swd_step toLowerCase) (swd_unmount w) xs) = swd_searchTerm w
   \<and> swd_issued (foldl (swd_step toLowerCase) (swd_unmount w) xs) = swd_issued w
   \<and> swd_results (foldl (swd_step toLowerCase) (swd_unmount w) xs) = swd_results w"
proof -
  have d: "dse_disposed (foldl dse_step (dse_unmount s) es)
     \<and> dse_fired (foldl dse_step (dse_unmount s) es) = dse_fired (dse_unmount s)
     \<and> dse_searchTerm (foldl dse_step (dse_unmount s) es) = dse_searchTerm (dse_unmount s)
     \<and> dse_debouncedTerm (foldl dse_step (dse_unmount s) es) = dse_debouncedTerm (dse_unmount s)"
    by (rule dse_disposed_foldl [OF dse_unmount_disposed])
  have w: "swd_disposed (foldl (swd_step toLowerCase) (swd_unmount w) xs)
     \<and> swd_fired (foldl (swd_step toLowerCase) (swd_unmount w) xs) = swd_fired (swd_unmount w)
     \<and> swd_searchTerm (foldl (swd_step toLowerCase) (swd_unmount w) xs) = swd_searchTerm (swd_unmount w)
     \<and> swd_issued (foldl (swd_step toLowerCase) (swd_unmount w) xs) = swd_issued (swd_unmount w)
     \<and> swd_results (foldl (swd_step toLowerCase) (swd_unmount w) xs) = swd_results (swd_unmount w)"
    by (rule swd_disposed_foldl [OF swd_unmount_disposed])
  have u: "dse_fired (dse_unmount s) = dse_fired s"
    "dse_searchTerm (dse_unmount s) = dse_searchTerm s"
    "dse_debouncedTerm (dse_unmount s) = dse_debouncedTerm s"
    "dse_timer (dse_unmount s) = None"
    by (simp_all add: dse_unmount_def debounce_cleanup_def)
  have v: "swd_fired (swd_unmount w) = swd_fired w"
    "swd_searchTerm (swd_unmount w) = swd_searchTerm w"
    "swd_issued (swd_unmount w) = swd_issued w"
    "swd_results (swd_unmount w) = swd_results w"
    "swd_timer (swd_unmount w) = None"
    by (simp_all add: swd_unmount_def swd_cleanup_def)
  from d w u v show ?thesis
    by (simp add: dse_disposed_def swd_disposed_def)
qed

lemmas swd_defs = swd_run_def swd_mount_def swd_init_def swd_effect_def swd_cleanup_def
  swd_setSearchTerm_def swd_elapse_def delayDebounce_def searchUsers_start_def
  searchUsers_settle_def trim_def isWhitespace_def delayMs_def swd_arrive_def swd_unmount_def
  matches_def lowerLatin1_def lowerUnit_def swd_status_def str_def

text \<open>A timer armed at time 200 and due at 700 is pending at unmount; 1000 ms later
  nothing has run, whereas without the unmount the callback runs at 700.\<close>

theorem C7_witness:
  "dse_timer (dse_run [Elapse 200, Type (str ''re'')] :: unit debsearch) = Some (700, str ''re'')
   \<and> dse_fired (dse_run [Elapse 200, Type (str ''re''), Elapse 1000] :: unit debsearch)
       = [(700, str ''re'')]
   \<and> dse_fired (foldl dse_step (dse_unmount (dse_run [Elapse 200, Type (str ''re'')]))
                  [Elapse 1000, Type (str ''x''), Elapse 1000] :: unit debsearch) = []
   \<and> dse_debouncedTerm (foldl dse_step (dse_unmount (dse_run [Elapse 200, Type (str ''re'')]))
                  [Elapse 1000, Type (str ''x''), Elapse 1000] :: unit debsearch) = []
   \<and> swd_issued (foldl (swd_step lowerLatin1)
                  (swd_unmount (swd_run lowerLatin1 [SwdElapse 200, SwdType (str ''re'')]))
                  [SwdElapse 1000] :: unit searchdeb) = []"
  using C7_no_callback_after_disposal
          [of "dse_run [Elapse 200, Type (str ''re'')] :: unit debsearch"
              "[Elapse 1000, Type (str ''x''), Elapse 1000]"
              "swd_run lowerLatin1 [SwdElapse 200, SwdType (str ''re'')] :: unit searchdeb"
              lowerLatin1 "[SwdElapse 1000]"]
  by (simp add: dse_defs swd_defs)

section \<open>Blank keys\<close>

text \<open>
  C4, as the code has it.  When the key changes to a blank string (one that \<open>trim\<close>
  empties: nothing but white space and line terminators), the results are emptied and no
  request is issued; the searching/loading flag is left as it was.  The
  component therefore is Idle afterwards exactly when no search was flagged as running;
  neither component has an error cell to reset.
\<close>

theorem C4_blank_key:
  assumes "trim k = []"
  shows "dse_results (onKeyChange k s) = []
    \<and> dse_issued (onKeyChange k s) = dse_issued s
    \<and> dse_isSearching (onKeyChange k s) = dse_isSearching s
    \<and> (dse_status (onKeyChange k s) = Idle \<longleftrightarrow> \<not> dse_isSearching s)
    \<and> swd_results (delayDebounce k w) = []
    \<and> swd_issued (delayDebounce k w) = swd_issued w
    \<and> swd_loading (delayDebounce k w) = swd_loading w
    \<and> (swd_status (delayDebounce k w) = Idle \<longleftrightarrow> \<not> swd_loading w)"
  using assms
  by (simp add: onKeyChange_def search_effect_def dse_status_def delayDebounce_def
                swd_status_def)

text \<open>The key is a no-break space followed by a space, set after a search for \<open>a\<close>
  has been answered.\<close>

theorem C4_witness:
  "trim [0x00A0, 0x0020] = []
   \<and> dse_results (onKeyChange [0x00A0, 0x0020]
        (dse_run [Type (str ''a''), Elapse 500, DseArrive 1 (Resolved [()])])) = []
   \<and> dse_status (onKeyChange [0x00A0, 0x0020]
        (dse_run [Type (str ''a''), Elapse 500, DseArrive 1 (Resolved [()])])) = Idle
   \<and> dse_issued (onKeyChange [0x00A0, 0x0020]
        (dse_run [Type (str ''a''), Elapse 500, DseArrive 1 (Resolved [()])])) = [str ''a'']
   \<and> swd_issued (delayDebounce [0x00A0, 0x0020] (swd_mount :: unit searchdeb)) = []"
  using C4_blank_key
          [of "[0x00A0, 0x0020]"
              "dse_run [Type (str ''a''), Elapse 500, DseArrive 1 (Resolved [()])]"
              "swd_mount :: unit searchdeb"]
  by (simp add: dse_defs swd_mount_def swd_init_def swd_effect_def)

text \<open>
  C4 as stated fails while a request is in flight: the term \<open>a\<close> is searched, then the
  input is cleared before the response arrives; the key becomes empty, and the component
  still reports Loading.
\<close>

theorem C4_counterexample:
  "dse_debouncedTerm (dse_run [Type (str ''a''), Elapse 500, Type [], Elapse 500] :: unit debsearch) = []
   \<and> dse_status (dse_run [Type (str ''a''), Elapse 500, Type [], Elapse 500] :: unit debsearch) = Loading
   \<and> dse_status (onKeyChange [] (dse_run [Type (str ''a''), Elapse 500] :: unit debsearch)) = Loading"
  by (simp add: dse_defs)

section \<open>Responses\<close>

text \<open>
  C1, as the code has it.  The components keep no token and compare none.  Every response
  to a request that is still outstanding is applied when it arrives, whichever request it
  answers: a resolved one stores its payload as the data and lowers the loading flag, a
  rejected one lowers the flag (and, in DynamicFetch, stores the message), also when a
  newer request has been issued in the meantime.
\<close>

theorem C1_every_response_applied:
  "(1 \<le> t \<and> t \<le> length (dse_issued s) \<and> t \<notin> set (dse_answered s) \<longrightarrow>
      dse_results (dse_arrive t (Resolved d) s) = d
      \<and> \<not> dse_isSearching (dse_arrive t (Resolved d) s)
      \<and> \<not> dse_isSearching (dse_arrive t (Rejected m) s))
   \<and> (1 \<le> t' \<and> t' \<le> length (df_issued f) \<and> t' \<notin> set (df_answered f) \<longrightarrow>
      df_user (df_arrive t' (Resolved u) f) = Some u
      \<and> \<not> df_loading (df_arrive t' (Resolved u) f)
      \<and> df_error (df_arrive t' (Rejected m) f) = Some m
      \<and> \<not> df_loading (df_arrive t' (Rejected m) f))"
  by (simp add: dse_arrive_def dse_settle_def df_arrive_def fetchUser_settle_def)

lemmas df_defs = df_run_def df_mount_def df_init_def fetchUser_start_def fetchUser_settle_def
  df_arrive_def selectUser_def df_status_def

theorem C1_witness:
  "(1::nat) \<le> 1
   \<and> 1 < length (dse_issued (dse_run [Type (str ''a''), Elapse 500, Type (str ''ab''), Elapse 500] :: nat debsearch))
   \<and> 1 \<notin> set (dse_answered (dse_run [Type (str ''a''), Elapse 500, Type (str ''ab''), Elapse 500] :: nat debsearch))
   \<and> dse_results (dse_arrive 1 (Resolved [7])
        (dse_run [Type (str ''a''), Elapse 500, Type (str ''ab''), Elapse 500] :: nat debsearch)) = [7]
   \<and> 1 < length (df_issued (df_run [SelectUser 2] :: nat dynfetch))
   \<and> 1 \<notin> set (df_answered (df_run [SelectUser 2] :: nat dynfetch))
   \<and> df_user (df_arrive 1 (Resolved 7) (df_run [SelectUser 2] :: nat dynfetch)) = Some 7"
  using C1_every_response_applied
          [of 1 "dse_run [Type (str ''a''), Elapse 500, Type (str ''ab''), Elapse 500] :: nat debsearch"
              "[7]" "''x''" 1 "df_run [SelectUser 2] :: nat dynfetch" 7]
  by (simp add: dse_defs df_defs)

text \<open>
  C1 as stated fails.  Request 1 is for \<open>a\<close>, request 2 for \<open>ab\<close>; the answer to request
  2 arrives first and is shown; the answer to request 1 arrives afterwards and replaces
  it, although request 2 is the latest.  DynamicFetch does the same with users 1 and 2.
\<close>

theorem C1_counterexample:
  "dse_issued (dse_run [Type (str ''a''), Elapse 500, Type (str ''ab''), Elapse 500,
                        DseArrive 2 (Resolved [''Abigail''])]) = [str ''a'', str ''ab'']
   \<and> dse_results (dse_run [Type (str ''a''), Elapse 500, Type (str ''ab''), Elapse 500,
                        DseArrive 2 (Resolved [''Abigail''])]) = [''Abigail'']
   \<and> dse_results (dse_run [Type (str ''a''), Elapse 500, Type (str ''ab''), Elapse 500,
                        DseArrive 2 (Resolved [''Abigail'']),
                        DseArrive 1 (Resolved [''Leanne'', ''Abigail''])])
       = [''Leanne'', ''Abigail'']
   \<and> df_userId (df_run [SelectUser 2, DfArrive 2 (Resolved ''Ervin''),
                        DfArrive 1 (Resolved ''Leanne'')]) = 2
   \<and> df_user (df_run [SelectUser 2, DfArrive 2 (Resolved ''Ervin'')]) = Some ''Ervin''
   \<and> df_user (df_run [SelectUser 2, DfArrive 2 (Resolved ''Ervin''),
                      DfArrive 1 (Resolved ''Leanne'')]) = Some ''Leanne''"
  by (simp add: dse_defs df_defs)

text \<open>
  C5, as the code has it.  A rejected promise never leaves the component: each
  continuation is a total function of the outcome and maps a rejection to a state.
  DynamicFetch stores the message in \<open>error\<close> and is in status Error.  SearchWithDebounce
  prints the message to the console, lowers \<open>loading\<close> and changes nothing else; it has
  no error cell and is never in status Error.
\<close>

theorem C5_errors_caught:
  "(1 \<le> t \<and> t \<le> length (df_issued f) \<and> t \<notin> set (df_answered f) \<longrightarrow>
      df_error (df_arrive t (Rejected m) f) = Some m
      \<and> df_status (df_arrive t (Rejected m) f) = Error)
   \<and> searchUsers_settle toLowerCase q (Rejected m) w
       = w\<lparr>swd_console := swd_console w @ [m], swd_loading := False\<rparr>
   \<and> swd_results (searchUsers_settle toLowerCase q (Rejected m) w) = swd_results w
   \<and> swd_status (searchUsers_settle toLowerCase q (Rejected m) w) \<noteq> Error"
  by (simp add: df_arrive_def fetchUser_settle_def df_status_def searchUsers_settle_def
                swd_status_def)

theorem C5_witness:
  "(1::nat) \<le> 1
   \<and> 1 \<le> length (df_issued (df_mount :: unit dynfetch))
   \<and> 1 \<notin> set (df_answered (df_mount :: unit dynfetch))
   \<and> df_error (df_arrive 1 (Rejected ''Network Error'') (df_mount :: unit dynfetch))
       = Some ''Network Error''
   \<and> df_status (df_arrive 1 (Rejected ''Network Error'') (df_mount :: unit dynfetch)) = Error"
  using C5_errors_caught
          [of 1 "df_mount :: unit dynfetch" "''Network Error''" lowerLatin1 "str ''le''"
              "swd_mount :: unit searchdeb"]
  by (simp add: df_defs)

text \<open>
  C5 as stated fails in SearchWithDebounce: a search whose request is rejected leaves the
  component Idle, with the message on the console only.
\<close>

theorem C5_counterexample:
  "swd_status (swd_run lowerLatin1 [SwdType (str ''le''), SwdElapse 500, SwdArrive 1 (Rejected ''Network Error'')]
                :: unit searchdeb) = Idle
   \<and> swd_console (swd_run lowerLatin1 [SwdType (str ''le''), SwdElapse 500, SwdArrive 1 (Rejected ''Network Error'')]
                :: unit searchdeb) = [''Network Error'']"
  by (simp add: swd_defs)

section \<open>The search filter\<close>






end
